theory Spec2Isabelle
  imports Complex_Main "HOL-Library.Sublist"
begin

section \<open>JavaScript values and the browser platform\<close>

text \<open>
  The dashboards and the authentication context are TypeScript modules that run in a
  browser. What they receive from the REST backend is typed \<open>any\<close>, so the model keeps
  such data as JavaScript values. Numbers are the safe integers (identifiers, counts,
  points, HTTP status codes); fractions, NaN and the infinities are not values of the
  model. An object is an association list whose first binding of a key is the one read.
\<close>

datatype jsval =
    JUndefined
  | JNull
  | JBool bool
  | JNum int
  | JStr string
  | JArr "jsval list"
  | JObj "(string \<times> jsval) list"

text \<open>
  A thrown value: the error classes the sources meet, each with its message. A
  \<open>DOMException\<close> is what the browser's storage throws when a write is refused.
\<close>

datatype js_error = Error string | TypeError string | SyntaxError string | DOMException string

fun message :: "js_error \<Rightarrow> string" where
  "message (Error m) = m"
| "message (TypeError m) = m"
| "message (SyntaxError m) = m"
| "message (DOMException m) = m"

text \<open>\<open>Boolean(v)\<close>, the test of \<open>if (v)\<close>, \<open>!v\<close>, \<open>a || b\<close> and \<open>a && b\<close>.\<close>

fun truthy :: "jsval \<Rightarrow> bool" where
  "truthy JUndefined = False"
| "truthy JNull = False"
| "truthy (JBool b) = b"
| "truthy (JNum n) = (n \<noteq> 0)"
| "truthy (JStr s) = (s \<noteq> [])"
| "truthy (JArr xs) = True"
| "truthy (JObj kvs) = True"

definition js_or :: "jsval \<Rightarrow> jsval \<Rightarrow> jsval" where
  "js_or a b = (if truthy a then a else b)"

text \<open>Decimal digits of an integer, as a template literal prints a safe integer.\<close>

fun show_nat :: "nat \<Rightarrow> string" where
  "show_nat n = (if n < 10 then [''0123456789'' ! n]
                 else show_nat (n div 10) @ [''0123456789'' ! (n mod 10)])"

declare show_nat.simps [simp del]

definition show_int :: "int \<Rightarrow> string" where
  "show_int i = (if i < 0 then CHR ''-'' # show_nat (nat (- i)) else show_nat (nat i))"

text \<open>
  \<open>String(v)\<close>, the conversion a template literal \<open>`${v}`\<close> applies. An array joins its
  elements with commas, \<open>null\<close> and \<open>undefined\<close> elements printing as nothing. A plain
  object prints as \<open>[object Object]\<close> through the inherited \<open>toString\<close>; an object that
  carries a \<open>toString\<close> key of its own (never a function in parsed JSON) has no
  primitive value and the conversion throws.
\<close>

fun js_toString :: "jsval \<Rightarrow> js_error + string"
  and js_join :: "jsval list \<Rightarrow> js_error + string" where
  "js_toString JUndefined = Inr ''undefined''"
| "js_toString JNull = Inr ''null''"
| "js_toString (JBool b) = Inr (if b then ''true'' else ''false'')"
| "js_toString (JNum n) = Inr (show_int n)"
| "js_toString (JStr s) = Inr s"
| "js_toString (JArr xs) = js_join xs"
| "js_toString (JObj kvs) =
     (if ''toString'' \<in> set (map fst kvs)
      then Inl (TypeError ''Cannot convert object to primitive value'')
      else Inr ''[object Object]'')"
| "js_join [] = Inr ''''"
| "js_join (x # xs) =
     (case (if x = JUndefined \<or> x = JNull then Inr '''' else js_toString x) of
        Inl e \<Rightarrow> Inl e
      | Inr s \<Rightarrow>
          (if xs = [] then Inr s
           else (case js_join xs of Inl e \<Rightarrow> Inl e | Inr t \<Rightarrow> Inr (s @ '','' @ t))))"

text \<open>
  Reading a property \<open>v.k\<close>. On \<open>null\<close> and \<open>undefined\<close> it throws a TypeError (the
  message is worded as V8 words it); on an object it finds the key or gives
  \<open>undefined\<close>; on every other value it gives \<open>undefined\<close>. The keys the sources read
  (\<open>error\<close>, \<open>message\<close>, \<open>user\<close>, \<open>role\<close>, \<open>token\<close>, \<open>course\<close>, \<open>course_id\<close>, ...) are
  none of the inherited ones, which the model does not have.
\<close>

fun js_get :: "jsval \<Rightarrow> string \<Rightarrow> js_error + jsval" where
  "js_get JUndefined k =
     Inl (TypeError (''Cannot read properties of undefined (reading '' @ [CHR 0x27] @ k @ [CHR 0x27] @ '')''))"
| "js_get JNull k =
     Inl (TypeError (''Cannot read properties of null (reading '' @ [CHR 0x27] @ k @ [CHR 0x27] @ '')''))"
| "js_get (JObj kvs) k = Inr (case map_of kvs k of None \<Rightarrow> JUndefined | Some v \<Rightarrow> v)"
| "js_get v k = Inr JUndefined"

text \<open>Optional chaining \<open>v?.k\<close>.\<close>

definition js_get_opt :: "jsval \<Rightarrow> string \<Rightarrow> jsval" where
  "js_get_opt v k = (case js_get v k of Inl e \<Rightarrow> JUndefined | Inr w \<Rightarrow> w)"

text \<open>\<open>s.includes(t)\<close> on strings: \<open>t\<close> occurs in \<open>s\<close> as a contiguous run, case-sensitively.\<close>

definition str_includes :: "string \<Rightarrow> string \<Rightarrow> bool" where
  "str_includes s searchString = sublist searchString s"

text \<open>\<open>Math.round\<close>: the nearest integer, a tie going towards plus infinity.\<close>

definition Math_round :: "rat \<Rightarrow> int" where
  "Math_round x = \<lfloor>x + 1 / 2\<rfloor>"

text \<open>An HTTP exchange as \<open>fetch\<close> sees it.\<close>

record request =
  url :: string
  http_method :: string
  headers :: "(string \<times> string) list"
  body :: "string option"

record response =
  status :: nat
  bodyText :: string

definition ok :: "response \<Rightarrow> bool" where
  "ok r = (200 \<le> status r \<and> status r \<le> 299)"

text \<open>
  What the browser provides and the repository does not define: the network
  (\<open>fetch\<close> followed by reading the body, \<open>Inl\<close> when the promise rejects), the JSON
  codec (\<open>JSON.parse\<close> throws a SyntaxError on text that is not JSON), the clock, the
  parsing and printing of dates (\<open>None\<close> is the invalid date, whose time value is NaN),
  \<open>Number.parseInt\<close> (\<open>None\<close> is NaN), \<open>String.prototype.trim\<close>, and the refusal of
  a write to session storage (\<open>setItem_throws store key value\<close> is the exception
  \<open>sessionStorage.setItem(key, value)\<close> throws on the storage \<open>store\<close>, as when the quota is
  exceeded; \<open>None\<close> when the write goes through).
\<close>

record platform =
  fetch :: "request \<Rightarrow> js_error + response"
  JSON_parse :: "string \<Rightarrow> js_error + jsval"
  JSON_stringify :: "jsval \<Rightarrow> string"
  Date_now :: int
  Date_parse :: "string \<Rightarrow> int option"
  toLocaleString :: "int option \<Rightarrow> string"
  toISOString :: "int \<Rightarrow> string"
  parseInt :: "string \<Rightarrow> int option"
  trim :: "string \<Rightarrow> string"
  setItem_throws :: "(string \<rightharpoonup> string) \<Rightarrow> string \<Rightarrow> string \<Rightarrow> js_error option"

section \<open>Time and status formatters\<close>

text \<open>
  \<open>formatDate\<close>, \<open>getRelativeTime\<close> and \<open>isDueDateOver\<close> stand in both dashboards with
  the same text. The argument is a string by its type and \<open>undefined\<close> or \<open>null\<close> when
  the record has no such field: \<open>None\<close> here.
\<close>

definition formatDate :: "platform \<Rightarrow> string option \<Rightarrow> string" where
  "formatDate P isoDate =
     (case isoDate of
        None \<Rightarrow> ''N/A''
      | Some s \<Rightarrow> if s = [] then ''N/A'' else toLocaleString P (Date_parse P s))"

text \<open>
  With an invalid date every difference is NaN, every comparison is false, and the
  last branch prints \<open>due in NaN days\<close>.
\<close>

definition getRelativeTime :: "platform \<Rightarrow> string option \<Rightarrow> string" where
  "getRelativeTime P isoDate =
     (case isoDate of
        None \<Rightarrow> ''No due date''
      | Some s \<Rightarrow>
          if s = [] then ''No due date''
          else (case Date_parse P s of
             None \<Rightarrow> ''due in NaN days''
           | Some dueDate \<Rightarrow>
               (let diffMs = dueDate - Date_now P;
                    diffSeconds = Math_round (of_int diffMs / 1000);
                    diffMinutes = Math_round (of_int diffSeconds / 60);
                    diffHours = Math_round (of_int diffMinutes / 60);
                    diffDays = Math_round (of_int diffHours / 24)
                in if diffSeconds < 0 then
                     (let absSeconds = \<bar>diffSeconds\<bar>;
                          absMinutes = \<bar>diffMinutes\<bar>;
                          absHours = \<bar>diffHours\<bar>;
                          absDays = \<bar>diffDays\<bar>
                      in if absSeconds < 60 then show_int absSeconds @ '' seconds overdue''
                         else if absMinutes < 60 then show_int absMinutes @ '' minutes overdue''
                         else if absHours < 24 then show_int absHours @ '' hours overdue''
                         else show_int absDays @ '' days overdue'')
                   else
                     (if diffSeconds < 60 then ''due in '' @ show_int diffSeconds @ '' seconds''
                      else if diffMinutes < 60 then ''due in '' @ show_int diffMinutes @ '' minutes''
                      else if diffHours < 24 then ''due in '' @ show_int diffHours @ '' hours''
                      else ''due in '' @ show_int diffDays @ '' days''))))"

definition isDueDateOver :: "platform \<Rightarrow> string option \<Rightarrow> bool" where
  "isDueDateOver P dueDate =
     (case dueDate of
        None \<Rightarrow> False
      | Some s \<Rightarrow>
          if s = [] then False
          else (case Date_parse P s of None \<Rightarrow> False | Some due \<Rightarrow> Date_now P > due))"

section \<open>The HTTP request helper\<close>

definition API_BASE_URL :: string where
  "API_BASE_URL = ''http://localhost:8080/api''"

text \<open>
  The request \<open>apiFetch\<close> builds before it calls \<open>fetch\<close>: the header table, the bearer
  token when there is one, and a body only for a truthy payload.
\<close>

definition apiFetch_request ::
  "platform \<Rightarrow> string \<Rightarrow> string \<Rightarrow> string option \<Rightarrow> jsval \<Rightarrow> request" where
  "apiFetch_request P endpoint meth token data =
     (let hdrs = [(''Content-Type'', ''application/json'')];
          hdrs = (case token of
                    None \<Rightarrow> hdrs
                  | Some t \<Rightarrow> if t \<noteq> [] then hdrs @ [(''Authorization'', ''Bearer '' @ t)] else hdrs)
      in \<lparr> url = API_BASE_URL @ endpoint,
           http_method = meth,
           headers = hdrs,
           body = (if truthy data then Some (JSON_stringify P data) else None) \<rparr>)"

text \<open>
  The message taken from a parsed error body:
  \<open>errorData.error?.message || errorData.message || errorMessage\<close>.
\<close>

definition apiFetch_errorField :: "jsval \<Rightarrow> jsval \<Rightarrow> js_error + jsval" where
  "apiFetch_errorField errorData errorMessage =
     (case js_get errorData ''error'' of
        Inl e \<Rightarrow> Inl e
      | Inr err \<Rightarrow>
          (let m1 = (if err = JUndefined \<or> err = JNull then JUndefined
                     else js_get_opt err ''message'')
           in if truthy m1 then Inr m1
              else (case js_get errorData ''message'' of
                      Inl e \<Rightarrow> Inl e
                    | Inr m2 \<Rightarrow> Inr (js_or m2 errorMessage))))"

text \<open>What \<open>apiFetch\<close> makes of a response whose body text has been read.\<close>

definition apiFetch_response :: "platform \<Rightarrow> response \<Rightarrow> js_error + jsval" where
  "apiFetch_response P resp =
     (let text = bodyText resp in
      if \<not> ok resp then
        (let generic = JStr (''Request failed (Status: '' @ show_nat (status resp) @ '')'');
             fallback = (if text \<noteq> [] then JStr text else generic);
             errorMessage =
               (case JSON_parse P text of
                  Inl e \<Rightarrow> fallback
                | Inr errorData \<Rightarrow>
                    (case apiFetch_errorField errorData generic of
                       Inl e \<Rightarrow> fallback
                     | Inr m \<Rightarrow> m))
         in case js_toString errorMessage of
              Inl e \<Rightarrow> Inl e
            | Inr m \<Rightarrow> Inl (Error (m @ '' (Status: '' @ show_nat (status resp) @ '')'')))
      else if text = [] then Inr (JObj [])
      else (case JSON_parse P text of
              Inl e \<Rightarrow> Inl (Error ''Failed to parse response as JSON'')
            | Inr result \<Rightarrow> Inr result))"

text \<open>
  \<open>apiFetch\<close> itself: one network attempt, whose request is returned beside the
  outcome so that callers can be asked how many requests they made. An omitted
  payload takes the default \<open>null\<close>. The console output is not modelled.
\<close>

definition apiFetch ::
  "platform \<Rightarrow> string \<Rightarrow> string \<Rightarrow> string option \<Rightarrow> jsval \<Rightarrow> request \<times> (js_error + jsval)" where
  "apiFetch P endpoint meth token data0 =
     (let data = (if data0 = JUndefined then JNull else data0);
          req = apiFetch_request P endpoint meth token data
      in (req, case fetch P req of
                 Inl e \<Rightarrow> Inl e
               | Inr resp \<Rightarrow> apiFetch_response P resp))"

section \<open>The authentication context\<close>

text \<open>
  The state of \<open>AuthProvider\<close> together with the tab's session storage. The token is
  whatever the login response carried under \<open>token\<close>.
\<close>

record auth_state =
  user :: jsval
  token :: jsval
  isLoading :: bool
  sessionStorage :: "string \<rightharpoonup> string"





section \<open>Dashboard state\<close>

text \<open>
  The part of a dashboard component's state that the modelled effects and handlers
  read or write, with two logs beside it: the messages shown by \<open>alert\<close> and the
  requests handed to \<open>fetch\<close>, oldest first.
\<close>

record dashboard_state =
  token :: "string option"
  announcements :: "jsval list"
  alerts :: "string list"
  requests :: "request list"

record join_data =
  course_id :: string
  name :: string

record student_state = dashboard_state +
  joinedCourses :: "jsval list"
  joinData :: join_data
  upcomingAssignments :: "jsval list"
  materials :: "jsval list"

record announcement_form =
  title :: string
  content :: string
  is_pinned :: bool

record teacher_state = dashboard_state +
  selectedCourse :: jsval
  newAnnouncement :: announcement_form
  courseAnnouncements :: "jsval list"

definition token_present :: "string option \<Rightarrow> bool" where
  "token_present t = (case t of None \<Rightarrow> False | Some s \<Rightarrow> s \<noteq> [])"

section \<open>Student dashboard: the per-course fan-out\<close>

text \<open>The endpoint \<open>`/classrooms/${course.course_id}/<what>`\<close>.\<close>

definition courseEndpoint :: "jsval \<Rightarrow> string \<Rightarrow> js_error + string" where
  "courseEndpoint course what =
     (case js_get course ''course_id'' of
        Inl e \<Rightarrow> Inl e
      | Inr cid \<Rightarrow>
          (case js_toString cid of
             Inl e \<Rightarrow> Inl e
           | Inr s \<Rightarrow> Inr (''/classrooms/'' @ s @ ''/'' @ what)))"

text \<open>
  What the call made for one course comes to: the error thrown while the endpoint is
  built, or the outcome of the promise \<open>apiFetch\<close> returns.
\<close>

definition courseFetch :: "platform \<Rightarrow> string option \<Rightarrow> string \<Rightarrow> jsval \<Rightarrow> js_error + jsval" where
  "courseFetch P tok what course =
     (case courseEndpoint course what of
        Inl e \<Rightarrow> Inl e
      | Inr endpoint \<Rightarrow> snd (apiFetch P endpoint ''GET'' tok JUndefined))"

text \<open>
  \<open>joinedCourses.map((course) => apiFetch(...))\<close>: every call issues its request when
  it is made, so the requests are all out before any outcome is awaited. The result
  lists the requests issued and the outcome of each promise; it is \<open>Inl\<close> when building
  an endpoint throws, which ends the \<open>map\<close> there.
\<close>

fun fetchPerCourse ::
  "platform \<Rightarrow> string option \<Rightarrow> string \<Rightarrow> jsval list
     \<Rightarrow> request list \<times> (js_error + (js_error + jsval) list)" where
  "fetchPerCourse P tok what [] = ([], Inr [])"
| "fetchPerCourse P tok what (course # rest) =
     (case courseEndpoint course what of
        Inl e \<Rightarrow> ([], Inl e)
      | Inr endpoint \<Rightarrow>
          (let (req, outcome) = apiFetch P endpoint ''GET'' tok JUndefined;
               (reqs, outcomes) = fetchPerCourse P tok what rest
           in (req # reqs,
               case outcomes of Inl e \<Rightarrow> Inl e | Inr os \<Rightarrow> Inr (outcome # os))))"

text \<open>
  \<open>await Promise.all(promises)\<close>: the values in order when every promise fulfils, a
  rejection as soon as one of them rejects. The error of a rejection only reaches the
  console, so which of several rejections it is does not show in the state.
\<close>

fun Promise_all :: "(js_error + jsval) list \<Rightarrow> js_error + jsval list" where
  "Promise_all [] = Inr []"
| "Promise_all (Inl e # ps) = Inl e"
| "Promise_all (Inr v # ps) =
     (case Promise_all ps of Inl e \<Rightarrow> Inl e | Inr vs \<Rightarrow> Inr (v # vs))"

text \<open>\<open>results.flat()\<close>: one level of arrays is opened, other values stay.\<close>

definition flat :: "jsval list \<Rightarrow> jsval list" where
  "flat rs = concat (map (\<lambda>r. case r of JArr xs \<Rightarrow> xs | _ \<Rightarrow> [r]) rs)"

text \<open>One of the three blocks of \<open>fetchCourseData\<close>: fan out, await all, flatten.\<close>

definition fetchAll ::
  "platform \<Rightarrow> string option \<Rightarrow> string \<Rightarrow> jsval list \<Rightarrow> request list \<times> (js_error + jsval list)" where
  "fetchAll P tok what courses =
     (let (reqs, promises) = fetchPerCourse P tok what courses
      in (reqs, case promises of
                  Inl e \<Rightarrow> Inl e
                | Inr ps \<Rightarrow> (case Promise_all ps of Inl e \<Rightarrow> Inl e | Inr rs \<Rightarrow> Inr (flat rs))))"

text \<open>
  The effect that runs \<open>fetchCourseData\<close> when the token or the course list changes.
  Its single \<open>catch\<close> logs the error and leaves the state as it is at that point.
\<close>

definition fetchCourseData :: "platform \<Rightarrow> student_state \<Rightarrow> student_state" where
  "fetchCourseData P st =
     (if \<not> token_present (token st) \<or> joinedCourses st = [] then st
      else
        (let (reqsA, resA) = fetchAll P (token st) ''assignments'' (joinedCourses st);
             st1 = st\<lparr>requests := requests st @ reqsA\<rparr>
         in case resA of
              Inl e \<Rightarrow> st1
            | Inr allAssignments \<Rightarrow>
                (let st2 = st1\<lparr>upcomingAssignments := filter truthy allAssignments\<rparr>;
                     (reqsB, resB) = fetchAll P (token st) ''announcements'' (joinedCourses st);
                     st3 = st2\<lparr>requests := requests st2 @ reqsB\<rparr>
                 in case resB of
                      Inl e \<Rightarrow> st3
                    | Inr allAnnouncements \<Rightarrow>
                        (let st4 = st3\<lparr>announcements :=
                                     filter (\<lambda>a. truthy a \<and> truthy (js_get_opt a ''course''))
                                       allAnnouncements\<rparr>;
                             (reqsC, resC) = fetchAll P (token st) ''materials'' (joinedCourses st);
                             st5 = st4\<lparr>requests := requests st4 @ reqsC\<rparr>
                         in case resC of
                              Inl e \<Rightarrow> st5
                            | Inr allMaterials \<Rightarrow>
                                st5\<lparr>materials := filter truthy allMaterials\<rparr>))))"

section \<open>Student dashboard: joining a course\<close>

text \<open>
  \<open>result.teacher_name && result.teacher_name.trim() !== "" ? result.teacher_name
  : "No teacher assigned"\<close>. Only a string has \<open>trim\<close>; calling it on another truthy
  value throws.
\<close>

definition teacherInfo :: "platform \<Rightarrow> jsval \<Rightarrow> js_error + jsval" where
  "teacherInfo P result =
     (case js_get result ''teacher_name'' of
        Inl e \<Rightarrow> Inl e
      | Inr tn \<Rightarrow>
          if \<not> truthy tn then Inr (JStr ''No teacher assigned'')
          else (case tn of
                  JStr s \<Rightarrow> Inr (if trim P s \<noteq> [] then tn else JStr ''No teacher assigned'')
                | _ \<Rightarrow> Inl (TypeError ''result.teacher_name.trim is not a function'')))"

text \<open>The text of the success alert, a template literal over four values.\<close>

definition enrollmentMessage :: "jsval \<Rightarrow> jsval \<Rightarrow> js_error + string" where
  "enrollmentMessage result info =
     (case js_toString (js_get_opt result ''message'') of
        Inl e \<Rightarrow> Inl e
      | Inr m \<Rightarrow>
     (case js_toString (js_get_opt result ''course_title'') of
        Inl e \<Rightarrow> Inl e
      | Inr t \<Rightarrow>
     (case js_toString (js_get_opt result ''course_id'') of
        Inl e \<Rightarrow> Inl e
      | Inr c \<Rightarrow>
     (case js_toString info of
        Inl e \<Rightarrow> Inl e
      | Inr i \<Rightarrow>
          Inr (''Enrollment successful: '' @ m @ [CHR 0x0A] @ ''Enrolled in '' @ [CHR 0x22] @ t
               @ [CHR 0x22] @ '' (Course ID: '' @ c @ '') with teacher: '' @ i)))))"

text \<open>
  The \<open>try\<close> block of \<open>handleJoinCourse\<close>: the state when it ends, and the error when
  it ends by a throw.
\<close>

definition handleJoinCourse_try ::
  "platform \<Rightarrow> student_state \<Rightarrow> int \<Rightarrow> string \<Rightarrow> student_state \<times> js_error option" where
  "handleJoinCourse_try P st courseId teacherName =
     (let (req, res) = apiFetch P ''/enroll'' ''POST'' (token st)
                         (JObj [(''course_id'', JNum courseId), (''teacher_name'', JStr teacherName)]);
          st1 = st\<lparr>requests := requests st @ [req]\<rparr>
      in case res of
           Inl e \<Rightarrow> (st1, Some e)
         | Inr result \<Rightarrow>
        (case teacherInfo P result of
           Inl e \<Rightarrow> (st1, Some e)
         | Inr info \<Rightarrow>
        (case enrollmentMessage result info of
           Inl e \<Rightarrow> (st1, Some e)
         | Inr msg \<Rightarrow>
             (let st2 = st1\<lparr>alerts := alerts st1 @ [msg]\<rparr>;
                  st3 = st2\<lparr>joinData := \<lparr>course_id = [], name = []\<rparr>\<rparr>;
                  course = js_get_opt result ''course''
              in if truthy course
                 then (st3\<lparr>joinedCourses := joinedCourses st3 @ [course]\<rparr>, None)
                 else
                   (let (req2, res2) = apiFetch P ''/student/enrollments'' ''GET'' (token st) JUndefined;
                        st4 = st3\<lparr>requests := requests st3 @ [req2]\<rparr>
                    in case res2 of
                         Inl e \<Rightarrow> (st4, Some e)
                       | Inr enrollments \<Rightarrow>
                           (st4\<lparr>joinedCourses :=
                                 (case enrollments of JArr xs \<Rightarrow> xs | _ \<Rightarrow> [])\<rparr>, None))))))"

text \<open>The \<open>catch\<close> block of \<open>handleJoinCourse\<close>: the alert shown for a caught error.\<close>

definition handleJoinCourse_catch :: "student_state \<Rightarrow> js_error \<Rightarrow> student_state" where
  "handleJoinCourse_catch st error =
     (let errorMsg = (if message error \<noteq> [] then message error else ''Unknown error occurred'')
      in if str_includes errorMsg ''No classroom exists''
         then st\<lparr>alerts := alerts st @
                [''No classroom exists with this Course ID. Please check the ID and try again.'']\<rparr>
         else if str_includes errorMsg ''Teacher does not match the course''
         then st\<lparr>alerts := alerts st @
                [''The teacher name does not match the course. Please check the teacher name and try again.'']\<rparr>
         else st\<lparr>alerts := alerts st @ [''Enrollment failed: '' @ errorMsg]\<rparr>)"

definition handleJoinCourse :: "platform \<Rightarrow> student_state \<Rightarrow> student_state" where
  "handleJoinCourse P st =
     (let courseId = parseInt P (course_id (joinData st));
          teacherName = trim P (name (joinData st))
      in case courseId of
           None \<Rightarrow> st\<lparr>alerts := alerts st @ [''Valid Course ID is required'']\<rparr>
         | Some cid \<Rightarrow>
             if cid \<le> 0 then st\<lparr>alerts := alerts st @ [''Valid Course ID is required'']\<rparr>
             else if teacherName = [] then st\<lparr>alerts := alerts st @ [''Teacher name is required'']\<rparr>
             else (case handleJoinCourse_try P st cid teacherName of
                     (st', None) \<Rightarrow> st'
                   | (st', Some e) \<Rightarrow> handleJoinCourse_catch st' e))"

section \<open>Teacher dashboard: creating an announcement\<close>

text \<open>
  The object \<open>newAnnouncementData\<close> built from the server's answer, with the clock as
  the fallback for a missing identifier and a missing creation time.
\<close>

definition newAnnouncementData :: "platform \<Rightarrow> jsval \<Rightarrow> jsval \<Rightarrow> js_error + jsval" where
  "newAnnouncementData P course data =
     (case js_get data ''announcement_id'' of
        Inl e \<Rightarrow> Inl e
      | Inr aid \<Rightarrow>
          Inr (JObj
            [(''announcement_id'', js_or aid (js_or (js_get_opt data ''id'') (JNum (Date_now P)))),
             (''course_id'', js_get_opt course ''course_id''),
             (''title'', js_get_opt data ''title''),
             (''content'', js_or (js_get_opt data ''content'') (JStr [])),
             (''created_at'',
                js_or (js_get_opt data ''created_at'') (JStr (toISOString P (Date_now P)))),
             (''is_pinned'', js_or (js_get_opt data ''is_pinned'') (JBool False))]))"

text \<open>The \<open>try\<close> block of \<open>handleCreateAnnouncement\<close>, entered after validation.\<close>

definition handleCreateAnnouncement_try ::
  "platform \<Rightarrow> teacher_state \<Rightarrow> teacher_state \<times> js_error option" where
  "handleCreateAnnouncement_try P st =
     (let form = newAnnouncement st;
          payload = JObj
            [(''course_id'', js_get_opt (selectedCourse st) ''course_id''),
             (''title'', JStr (title form)),
             (''content'', if content form \<noteq> [] then JStr (content form) else JNull),
             (''is_pinned'', JBool (is_pinned form))];
          (req, res) = apiFetch P ''/announcements'' ''POST'' (token st) payload;
          st1 = st\<lparr>requests := requests st @ [req]\<rparr>
      in case res of
           Inl e \<Rightarrow> (st1, Some e)
         | Inr data \<Rightarrow>
             (case newAnnouncementData P (selectedCourse st) data of
                Inl e \<Rightarrow> (st1, Some e)
              | Inr new \<Rightarrow>
                  (let st2 = st1\<lparr>courseAnnouncements := new # courseAnnouncements st1\<rparr>;
                       st3 = st2\<lparr>announcements := new # announcements st2\<rparr>;
                       st4 = st3\<lparr>newAnnouncement :=
                                   \<lparr>title = [], content = [], is_pinned = False\<rparr>\<rparr>
                   in (st4\<lparr>alerts := alerts st4 @ [''Announcement made successfully.'']\<rparr>, None))))"

definition handleCreateAnnouncement :: "platform \<Rightarrow> teacher_state \<Rightarrow> teacher_state" where
  "handleCreateAnnouncement P st =
     (if \<not> truthy (selectedCourse st) \<or> title (newAnnouncement st) = []
         \<or> content (newAnnouncement st) = []
      then st\<lparr>alerts := alerts st @ [''Please provide a course, announcement title, and content'']\<rparr>
      else (case handleCreateAnnouncement_try P st of
              (st', None) \<Rightarrow> st'
            | (st', Some e) \<Rightarrow>
                st'\<lparr>alerts := alerts st' @
                      [''An error occurred while creating the announcement: '' @ message e]\<rparr>))"

section \<open>A platform for worked examples\<close>

text \<open>
  A browser with no network, a JSON codec that knows no text, and the clock at the
  epoch. The examples below update the fields they exercise.
\<close>

definition offline :: platform where
  "offline =
     \<lparr> fetch = (\<lambda>req. Inl (TypeError ''Failed to fetch'')),
       JSON_parse = (\<lambda>s. Inl (SyntaxError ''Unexpected end of JSON input'')),
       JSON_stringify = (\<lambda>v. ''null''),
       Date_now = 0,
       Date_parse = (\<lambda>s. None),
       toLocaleString = (\<lambda>t. ''Invalid Date''),
       toISOString = (\<lambda>t. ''1970-01-01T00:00:00.000Z''),
       parseInt = (\<lambda>s. None),
       trim = (\<lambda>s. s),
       setItem_throws = (\<lambda>store k v. None) \<rparr>"

section \<open>Example servers\<close>

text \<open>The body \<open>{"message":"not found"}\<close> and a codec that reads it.\<close>

definition not_found_body :: string where
  "not_found_body = ''{\"message\":\"not found\"}''"

definition not_found_server :: platform where
  "not_found_server =
     offline\<lparr> fetch := (\<lambda>req. Inr \<lparr>status = 404, bodyText = not_found_body\<rparr>),
              JSON_parse := (\<lambda>s. if s = not_found_body
                                  then Inr (JObj [(''message'', JStr ''not found'')])
                                  else Inl (SyntaxError ''Unexpected token'')) \<rparr>"

text \<open>
  The body \<open>{"message":{"toString":1}}\<close>, whose message is an object with a
  \<open>toString\<close> key of its own, sent with status 400.
\<close>

definition toString_body :: string where
  "toString_body = ''{\"message\":{\"toString\":1}}''"

definition toString_server :: platform where
  "toString_server =
     offline\<lparr> fetch := (\<lambda>req. Inr \<lparr>status = 400, bodyText = toString_body\<rparr>),
              JSON_parse := (\<lambda>s. if s = toString_body
                                  then Inr (JObj [(''message'', JObj [(''toString'', JNum 1)])])
                                  else Inl (SyntaxError ''Unexpected token'')) \<rparr>"

text \<open>A server that answers every request with status 200 and the given body.\<close>

definition ok_server :: "string \<Rightarrow> platform" where
  "ok_server text = offline\<lparr> fetch := (\<lambda>req. Inr \<lparr>status = 200, bodyText = text\<rparr>) \<rparr>"

text \<open>A browser whose clock reads \<open>now\<close> and whose date parser reads every text as \<open>due\<close>.\<close>

definition clock_at :: "int \<Rightarrow> int \<Rightarrow> platform" where
  "clock_at now due = offline\<lparr> Date_now := now, Date_parse := (\<lambda>s. Some due) \<rparr>"

text \<open>
  A server for three courses: the assignments of course 2 answer with status 500, every
  other request with status 200 and a list of one assignment.
\<close>

definition essay_body :: string where
  "essay_body = ''[{\"title\":\"Essay\"}]''"

definition essay :: jsval where
  "essay = JObj [(''title'', JStr ''Essay'')]"

definition three_course_server :: platform where
  "three_course_server =
     offline\<lparr> fetch := (\<lambda>req. if url req = ''http://localhost:8080/api/classrooms/2/assignments''
                               then Inr \<lparr>status = 500, bodyText = []\<rparr>
                               else Inr \<lparr>status = 200, bodyText = essay_body\<rparr>),
              JSON_parse := (\<lambda>s. if s = essay_body then Inr (JArr [essay])
                                  else Inl (SyntaxError ''Unexpected end of JSON input'')) \<rparr>"

definition three_courses :: student_state where
  "three_courses =
     \<lparr> token = Some ''abc'', announcements = [], alerts = [], requests = [],
       joinedCourses = [JObj [(''course_id'', JNum 1)], JObj [(''course_id'', JNum 2)],
                        JObj [(''course_id'', JNum 3)]],
       joinData = \<lparr>course_id = [], name = []\<rparr>,
       upcomingAssignments = [], materials = [] \<rparr>"

text \<open>
  A server that answers every request with the given status and body, in a browser
  whose \<open>parseInt\<close> reads the text \<open>12\<close>.
\<close>

definition status_server :: "nat \<Rightarrow> string \<Rightarrow> platform" where
  "status_server code b =
     offline\<lparr> fetch := (\<lambda>req. Inr \<lparr>status = code, bodyText = b\<rparr>),
              parseInt := (\<lambda>s. if s = ''12'' then Some 12 else None) \<rparr>"

definition joining :: student_state where
  "joining =
     \<lparr> token = Some ''abc'', announcements = [], alerts = [], requests = [],
       joinedCourses = [],
       joinData = \<lparr>course_id = ''12'', name = ''Ada''\<rparr>,
       upcomingAssignments = [], materials = [] \<rparr>"

text \<open>A teacher who has chosen course 7 and typed a content but no title.\<close>

definition untitled :: teacher_state where
  "untitled =
     \<lparr> token = Some ''abc'', announcements = [], alerts = [], requests = [],
       selectedCourse = JObj [(''course_id'', JNum 7)],
       newAnnouncement = \<lparr>title = [], content = ''Exam on Friday'', is_pinned = False\<rparr>,
       courseAnnouncements = [] \<rparr>"




section \<open>Helper lemmas\<close>

lemma js_get_opt_nullish [simp]:
  "js_get_opt JUndefined k = JUndefined" "js_get_opt JNull k = JUndefined"
  by (simp_all add: js_get_opt_def)

lemma js_get_opt_Inr: "js_get v k = Inr w \<Longrightarrow> js_get_opt v k = w"
  by (simp add: js_get_opt_def)

lemma show_nat_404: "show_nat 404 = ''404''"
  by (simp add: show_nat.simps)

lemma show_int_digit: "show_int 0 = ''0''" "show_int 1 = ''1''" "show_int 2 = ''2''"
  by (simp_all add: show_int_def show_nat.simps)

text \<open>The rounded quotient of two integers, without the detour through the rationals.\<close>

lemma Math_round_div:
  assumes "0 < b"
  shows "Math_round (of_int a / of_int b) = (2 * a + b) div (2 * b)"
proof -
  have "(of_int a / of_int b :: rat) + 1 / 2 = of_int (2 * a + b) / of_int (2 * b)"
    using assms by (simp add: field_simps)
  then show ?thesis
    unfolding Math_round_def by (simp only: floor_divide_of_int_eq)
qed

lemma Math_round_1000: "Math_round (of_int a / 1000) = (a + 500) div 1000"
  using Math_round_div [of 1000 a] by simp

lemma Math_round_60: "Math_round (of_int a / 60) = (a + 30) div 60"
  using Math_round_div [of 60 a] by simp

lemma Math_round_24: "Math_round (of_int a / 24) = (a + 12) div 24"
  using Math_round_div [of 24 a] by simp

lemma nearest_div:
  fixes a b :: int
  assumes "0 < b"
  shows "\<bar>2 * b * ((a + b) div (2 * b)) - a\<bar> \<le> b"
proof -
  have "2 * b * ((a + b) div (2 * b)) = (a + b) - (a + b) mod (2 * b)"
    by (simp add: minus_mod_eq_mult_div)
  moreover have "0 \<le> (a + b) mod (2 * b)" "(a + b) mod (2 * b) < 2 * b"
    using assms by simp_all
  ultimately show ?thesis by linarith
qed

lemma nearest_1000: "\<bar>1000 * ((a + 500) div 1000) - a\<bar> \<le> (500::int)"
  using nearest_div [of 500 a] by simp

lemma nearest_60: "\<bar>60 * ((a + 30) div 60) - a\<bar> \<le> (30::int)"
  using nearest_div [of 30 a] by simp

lemma nearest_24: "\<bar>24 * ((a + 12) div 24) - a\<bar> \<le> (12::int)"
  using nearest_div [of 12 a] by simp

lemma rounded_negative: "((a + 500) div 1000 < 0) = (a < - (500::int))"
  using pos_imp_zdiv_neg_iff [of 1000 "a + 500"] by linarith

text \<open>\<open>getRelativeTime\<close> on a valid date, in integer arithmetic.\<close>

lemma getRelativeTime_rounded:
  assumes "s \<noteq> []" "Date_parse P s = Some due"
  shows "getRelativeTime P (Some s) =
    (let ds = (due - Date_now P + 500) div 1000;
         dm = (ds + 30) div 60;
         dh = (dm + 30) div 60;
         dd = (dh + 12) div 24
     in if ds < 0 then
          (if \<bar>ds\<bar> < 60 then show_int \<bar>ds\<bar> @ '' seconds overdue''
           else if \<bar>dm\<bar> < 60 then show_int \<bar>dm\<bar> @ '' minutes overdue''
           else if \<bar>dh\<bar> < 24 then show_int \<bar>dh\<bar> @ '' hours overdue''
           else show_int \<bar>dd\<bar> @ '' days overdue'')
        else
          (if ds < 60 then ''due in '' @ show_int ds @ '' seconds''
           else if dm < 60 then ''due in '' @ show_int dm @ '' minutes''
           else if dh < 24 then ''due in '' @ show_int dh @ '' hours''
           else ''due in '' @ show_int dd @ '' days''))"
  unfolding getRelativeTime_def Math_round_1000 Math_round_60 Math_round_24
  by (simp only: assms option.case if_False Let_def)

lemma apiFetch_snd:
  "snd (apiFetch P endpoint meth tok data) =
     (case fetch P (fst (apiFetch P endpoint meth tok data)) of
        Inl e \<Rightarrow> Inl e
      | Inr resp \<Rightarrow> apiFetch_response P resp)"
  by (simp add: apiFetch_def Let_def)

lemma apiFetch_errorField_first:
  assumes "js_get d ''error'' = Inr err" "js_get err ''message'' = Inr v" "truthy v"
  shows "apiFetch_errorField d g = Inr v"
  using assms by (auto simp: apiFetch_errorField_def Let_def js_get_opt_def)

lemma apiFetch_errorField_second:
  assumes "js_get d ''error'' = Inr err" "\<not> truthy (js_get_opt err ''message'')"
    "js_get d ''message'' = Inr v" "truthy v"
  shows "apiFetch_errorField d g = Inr v"
  using assms by (auto simp: apiFetch_errorField_def Let_def js_or_def)

lemma apiFetch_errorField_neither:
  assumes "js_get d ''error'' = Inr err" "\<not> truthy (js_get_opt err ''message'')"
    "js_get d ''message'' = Inr v" "\<not> truthy v"
  shows "apiFetch_errorField d g = Inr g"
  using assms by (auto simp: apiFetch_errorField_def Let_def js_or_def)

section \<open>The HTTP request helper: results\<close>

text \<open>
  Claim C3, as the code has it. When the response to an \<open>apiFetch\<close> call has a status
  outside 200..299, the call rejects. When the message taken from the body has a string
  form, as every string has, the error message is \<open><message> (Status: <code>)\<close>, where
  \<open><message>\<close> is the truthy \<open>error.message\<close> field of the parsed body, else its truthy
  \<open>message\<close> field, each in its string form; the raw body text when the body is not JSON;
  and \<open>Request failed (Status: <code>)\<close> when that text is empty. A JSON body with neither
  field truthy also gives the generic message, and the JSON body \<open>null\<close> its raw text.
  When the field has no string form the call rejects with the error of the conversion.
\<close>

theorem apiFetch_error_message:
  assumes sent: "fetch P (fst (apiFetch P endpoint meth tok data)) = Inr resp"
    and bad: "\<not> ok resp"
  shows "(\<exists>e. snd (apiFetch P endpoint meth tok data) = Inl e)
    \<and> js_toString (JStr str) = Inr str
    \<and> (JSON_parse P (bodyText resp) = Inr d \<and> js_get d ''error'' = Inr err
         \<and> js_get err ''message'' = Inr v \<and> truthy v \<and> js_toString v = Inl te
       \<longrightarrow> snd (apiFetch P endpoint meth tok data) = Inl te)
    \<and> (JSON_parse P (bodyText resp) = Inr d \<and> js_get d ''error'' = Inr err
         \<and> \<not> truthy (js_get_opt err ''message'')
         \<and> js_get d ''message'' = Inr v \<and> truthy v \<and> js_toString v = Inl te
       \<longrightarrow> snd (apiFetch P endpoint meth tok data) = Inl te)
    \<and> (JSON_parse P (bodyText resp) = Inr d \<and> js_get d ''error'' = Inr err
         \<and> js_get err ''message'' = Inr v \<and> truthy v \<and> js_toString v = Inr m
       \<longrightarrow> snd (apiFetch P endpoint meth tok data)
             = Inl (Error (m @ '' (Status: '' @ show_nat (status resp) @ '')'')))
    \<and> (JSON_parse P (bodyText resp) = Inr d \<and> js_get d ''error'' = Inr err
         \<and> \<not> truthy (js_get_opt err ''message'')
         \<and> js_get d ''message'' = Inr v \<and> truthy v \<and> js_toString v = Inr m
       \<longrightarrow> snd (apiFetch P endpoint meth tok data)
             = Inl (Error (m @ '' (Status: '' @ show_nat (status resp) @ '')'')))
    \<and> (JSON_parse P (bodyText resp) = Inr d \<and> js_get d ''error'' = Inr err
         \<and> \<not> truthy (js_get_opt err ''message'')
         \<and> js_get d ''message'' = Inr v \<and> \<not> truthy v
       \<longrightarrow> snd (apiFetch P endpoint meth tok data)
             = Inl (Error (''Request failed (Status: '' @ show_nat (status resp) @ '')''
                           @ '' (Status: '' @ show_nat (status resp) @ '')'')))
    \<and> (JSON_parse P (bodyText resp) = Inr d \<and> js_get d ''error'' = Inl pe
         \<and> bodyText resp \<noteq> []
       \<longrightarrow> snd (apiFetch P endpoint meth tok data)
             = Inl (Error (bodyText resp @ '' (Status: '' @ show_nat (status resp) @ '')'')))
    \<and> (JSON_parse P (bodyText resp) = Inl pe \<and> bodyText resp \<noteq> []
       \<longrightarrow> snd (apiFetch P endpoint meth tok data)
             = Inl (Error (bodyText resp @ '' (Status: '' @ show_nat (status resp) @ '')'')))
    \<and> (JSON_parse P (bodyText resp) = Inl pe \<and> bodyText resp = []
       \<longrightarrow> snd (apiFetch P endpoint meth tok data)
             = Inl (Error (''Request failed (Status: '' @ show_nat (status resp) @ '')''
                           @ '' (Status: '' @ show_nat (status resp) @ '')'')))"
proof -
  have eq: "snd (apiFetch P endpoint meth tok data) = apiFetch_response P resp"
    using sent by (simp add: apiFetch_snd)
  have rejects: "\<exists>e. apiFetch_response P resp = Inl e"
    using bad by (simp add: apiFetch_response_def Let_def split: sum.splits)
  have first: "apiFetch_response P resp
      = Inl (Error (m @ '' (Status: '' @ show_nat (status resp) @ '')''))"
    if "JSON_parse P (bodyText resp) = Inr d" "js_get d ''error'' = Inr err"
      "js_get err ''message'' = Inr v" "truthy v" "js_toString v = Inr m"
    using that bad apiFetch_errorField_first [OF that(2) that(3) that(4)]
    by (simp add: apiFetch_response_def Let_def)
  have second: "apiFetch_response P resp
      = Inl (Error (m @ '' (Status: '' @ show_nat (status resp) @ '')''))"
    if "JSON_parse P (bodyText resp) = Inr d" "js_get d ''error'' = Inr err"
      "\<not> truthy (js_get_opt err ''message'')"
      "js_get d ''message'' = Inr v" "truthy v" "js_toString v = Inr m"
    using that bad apiFetch_errorField_second [OF that(2) that(3) that(4) that(5)]
    by (simp add: apiFetch_response_def Let_def)
  have str: "js_toString (JStr str) = Inr str"
    by simp
  have first_throws: "apiFetch_response P resp = Inl te"
    if "JSON_parse P (bodyText resp) = Inr d" "js_get d ''error'' = Inr err"
      "js_get err ''message'' = Inr v" "truthy v" "js_toString v = Inl te"
    using that bad apiFetch_errorField_first [OF that(2) that(3) that(4)]
    by (simp add: apiFetch_response_def Let_def)
  have second_throws: "apiFetch_response P resp = Inl te"
    if "JSON_parse P (bodyText resp) = Inr d" "js_get d ''error'' = Inr err"
      "\<not> truthy (js_get_opt err ''message'')"
      "js_get d ''message'' = Inr v" "truthy v" "js_toString v = Inl te"
    using that bad apiFetch_errorField_second [OF that(2) that(3) that(4) that(5)]
    by (simp add: apiFetch_response_def Let_def)
  have neither: "apiFetch_response P resp
      = Inl (Error (''Request failed (Status: '' @ show_nat (status resp) @ '')''
                           @ '' (Status: '' @ show_nat (status resp) @ '')''))"
    if "JSON_parse P (bodyText resp) = Inr d" "js_get d ''error'' = Inr err"
      "\<not> truthy (js_get_opt err ''message'')"
      "js_get d ''message'' = Inr v" "\<not> truthy v"
    using that bad apiFetch_errorField_neither [OF that(2) that(3) that(4) that(5)]
    by (simp add: apiFetch_response_def Let_def)
  have null: "apiFetch_response P resp
      = Inl (Error (bodyText resp @ '' (Status: '' @ show_nat (status resp) @ '')''))"
    if "JSON_parse P (bodyText resp) = Inr d" "js_get d ''error'' = Inl pe"
      "bodyText resp \<noteq> []"
    using that bad by (simp add: apiFetch_response_def apiFetch_errorField_def Let_def)
  have raw: "apiFetch_response P resp
      = Inl (Error (bodyText resp @ '' (Status: '' @ show_nat (status resp) @ '')''))"
    if "JSON_parse P (bodyText resp) = Inl pe" "bodyText resp \<noteq> []"
    using that bad by (simp add: apiFetch_response_def Let_def)
  have generic: "apiFetch_response P resp
      = Inl (Error (''Request failed (Status: '' @ show_nat (status resp) @ '')''
                           @ '' (Status: '' @ show_nat (status resp) @ '')''))"
    if "JSON_parse P (bodyText resp) = Inl pe" "bodyText resp = []"
    using that bad by (simp add: apiFetch_response_def Let_def)
  show ?thesis
    unfolding eq
    apply (intro conjI impI)
            apply (rule rejects)
           apply (rule str)
          apply (elim conjE, rule first_throws, assumption+)
         apply (elim conjE, rule second_throws, assumption+)
        apply (elim conjE, rule first, assumption+)
       apply (elim conjE, rule second, assumption+)
      apply (elim conjE, rule neither, assumption+)
     apply (elim conjE, rule null, assumption+)
    apply (elim conjE, rule raw, assumption+)
    apply (elim conjE, rule generic, assumption+)
    done
qed

text \<open>A 404 whose body is \<open>{"message":"not found"}\<close> rejects with \<open>not found (Status: 404)\<close>.\<close>

theorem apiFetch_error_message_witness:
  "snd (apiFetch not_found_server ''/classrooms/7'' ''GET'' (Some ''abc'') JUndefined)
     = Inl (Error ''not found (Status: 404)'')"
proof -
  let ?P = not_found_server
  let ?resp = "\<lparr>status = 404, bodyText = not_found_body\<rparr>"
  have sent: "fetch ?P (fst (apiFetch ?P ''/classrooms/7'' ''GET'' (Some ''abc'') JUndefined)) = Inr ?resp"
    by (simp add: not_found_server_def)
  have bad: "\<not> ok ?resp" by (simp add: ok_def)
  have parsed: "JSON_parse ?P (bodyText ?resp) = Inr (JObj [(''message'', JStr ''not found'')])"
    by (simp add: not_found_server_def)
  from apiFetch_error_message [OF sent bad, where d = "JObj [(''message'', JStr ''not found'')]"
      and err = JUndefined and v = "JStr ''not found''" and m = "''not found''"] parsed
  show ?thesis by (simp add: show_nat_404)
qed

text \<open>
  The claim as the specification words it fails on a 400 whose body is
  \<open>{"message":{"toString":1}}\<close>: the call rejects with the TypeError of the conversion,
  whose message does not end in \<open>(Status: 400)\<close>.
\<close>

theorem apiFetch_toString_counterexample:
  "snd (apiFetch toString_server ''/enroll'' ''POST'' (Some ''abc'') JUndefined)
     = Inl (TypeError ''Cannot convert object to primitive value'')
   \<and> \<not> suffix '' (Status: 400)'' (message (TypeError ''Cannot convert object to primitive value''))"
  by code_simp

text \<open>
  Claim C4. When the response to an \<open>apiFetch\<close> call has a status in 200..299, an empty
  body resolves to the empty object, a non-empty body that is not JSON rejects with the
  message \<open>Failed to parse response as JSON\<close>, and a JSON body resolves to its value.
\<close>

theorem apiFetch_success_body:
  assumes sent: "fetch P (fst (apiFetch P endpoint meth tok data)) = Inr resp"
    and good: "ok resp"
  shows "(bodyText resp = [] \<longrightarrow> snd (apiFetch P endpoint meth tok data) = Inr (JObj []))
    \<and> (bodyText resp \<noteq> [] \<and> JSON_parse P (bodyText resp) = Inl pe
         \<longrightarrow> snd (apiFetch P endpoint meth tok data)
               = Inl (Error ''Failed to parse response as JSON''))
    \<and> (bodyText resp \<noteq> [] \<and> JSON_parse P (bodyText resp) = Inr v
         \<longrightarrow> snd (apiFetch P endpoint meth tok data) = Inr v)"
proof -
  have eq: "snd (apiFetch P endpoint meth tok data) = apiFetch_response P resp"
    using sent by (simp add: apiFetch_snd)
  show ?thesis
    unfolding eq using good by (simp add: apiFetch_response_def Let_def)
qed

theorem apiFetch_success_body_witness:
  "snd (apiFetch (ok_server []) ''/submissions/3'' ''PUT'' (Some ''abc'') (JObj [])) = Inr (JObj [])
   \<and> snd (apiFetch (ok_server ''<html>'') ''/submissions/3'' ''PUT'' (Some ''abc'') (JObj []))
       = Inl (Error ''Failed to parse response as JSON'')"
proof -
  have good: "ok \<lparr>status = 200, bodyText = b\<rparr>" for b
    by (simp add: ok_def)
  have sent: "fetch (ok_server b) (fst (apiFetch (ok_server b) ''/submissions/3'' ''PUT''
      (Some ''abc'') (JObj []))) = Inr \<lparr>status = 200, bodyText = b\<rparr>" for b
    by (simp add: ok_server_def)
  have unread: "JSON_parse (ok_server ''<html>'') ''<html>''
      = Inl (SyntaxError ''Unexpected end of JSON input'')"
    by (simp add: ok_server_def offline_def)
  show ?thesis
    using apiFetch_success_body [OF sent good, of "[]"]
      apiFetch_success_body [OF sent good, of "''<html>''" "SyntaxError ''Unexpected end of JSON input''"]
      unread
    by simp
qed

text \<open>
  Claim C10. The request \<open>apiFetch\<close> hands to \<open>fetch\<close> has a body exactly when the payload
  is truthy, and then it is the payload's JSON text: for \<open>undefined\<close> (the omitted
  argument), \<open>null\<close>, \<open>0\<close>, the empty string and \<open>false\<close> there is no body. The header
  \<open>Content-Type: application/json\<close> is on every request.
\<close>

theorem apiFetch_body_only_for_truthy_payload:
  "body (fst (apiFetch P endpoint meth tok data))
     = (if truthy data then Some (JSON_stringify P data) else None)
   \<and> (\<forall>d \<in> set [JUndefined, JNull, JNum 0, JStr [], JBool False].
        body (fst (apiFetch P endpoint meth tok d)) = None)
   \<and> map_of (headers (fst (apiFetch P endpoint meth tok data))) ''Content-Type''
       = Some ''application/json''
   \<and> snd (apiFetch P endpoint meth tok data)
       = (case fetch P (fst (apiFetch P endpoint meth tok data)) of
            Inl e \<Rightarrow> Inl e
          | Inr resp \<Rightarrow> apiFetch_response P resp)"
proof -
  have hdr: "map_of (headers (apiFetch_request P endpoint meth tok d)) ''Content-Type''
      = Some ''application/json''" for d
    by (simp add: apiFetch_request_def Let_def split: option.splits)
  have bdy: "body (fst (apiFetch P endpoint meth tok d))
      = (if truthy d then Some (JSON_stringify P d) else None)" for d
    by (simp add: apiFetch_def apiFetch_request_def Let_def)
  show ?thesis
    using hdr bdy by (simp add: apiFetch_snd) (simp add: apiFetch_def Let_def)
qed

theorem apiFetch_body_only_for_truthy_payload_witness:
  "body (fst (apiFetch offline ''/enroll'' ''POST'' None (JNum 0))) = None
   \<and> body (fst (apiFetch offline ''/enroll'' ''POST'' None (JBool False))) = None
   \<and> body (fst (apiFetch offline ''/enroll'' ''POST'' None (JStr []))) = None
   \<and> body (fst (apiFetch offline ''/enroll'' ''POST'' None JUndefined)) = None
   \<and> body (fst (apiFetch offline ''/enroll'' ''POST'' None (JNum 7))) = Some ''null''
   \<and> map_of (headers (fst (apiFetch offline ''/enroll'' ''POST'' None (JNum 0)))) ''Content-Type''
       = Some ''application/json''"
  using apiFetch_body_only_for_truthy_payload [of offline "''/enroll''" "''POST''" None "JNum 0"]
    apiFetch_body_only_for_truthy_payload [of offline "''/enroll''" "''POST''" None "JNum 7"]
  by (simp add: offline_def)

section \<open>Time and status formatters: results\<close>

text \<open>
  Claim C9. For an absent or empty timestamp \<open>formatDate\<close> returns \<open>N/A\<close> and
  \<open>getRelativeTime\<close> returns \<open>No due date\<close>.
\<close>

theorem empty_timestamp_formatting:
  assumes "isoDate = None \<or> isoDate = Some []"
  shows "formatDate P isoDate = ''N/A'' \<and> getRelativeTime P isoDate = ''No due date''"
  using assms by (auto simp: formatDate_def getRelativeTime_def)

theorem empty_timestamp_formatting_witness:
  "formatDate offline None = ''N/A'' \<and> getRelativeTime offline None = ''No due date''
   \<and> formatDate offline (Some []) = ''N/A'' \<and> getRelativeTime offline (Some []) = ''No due date''"
  using empty_timestamp_formatting [of None offline] empty_timestamp_formatting [of "Some []" offline]
  by simp

text \<open>
  Claim C6. \<open>isDueDateOver\<close> is true exactly when its argument is a non-empty text that
  parses to an instant strictly before the current time. When that instant is the
  current time it is false, and for an absent or empty argument it is false.
\<close>

theorem isDueDateOver_iff:
  "(isDueDateOver P dueDate
      \<longleftrightarrow> (\<exists>s due. dueDate = Some s \<and> s \<noteq> [] \<and> Date_parse P s = Some due \<and> due < Date_now P))
   \<and> (Date_parse P t = Some (Date_now P) \<longrightarrow> \<not> isDueDateOver P (Some t))
   \<and> \<not> isDueDateOver P None \<and> \<not> isDueDateOver P (Some [])"
  by (auto simp: isDueDateOver_def split: option.splits)

theorem isDueDateOver_iff_witness:
  "isDueDateOver (clock_at 5000 4999) (Some ''2025-01-01T00:00:00Z'')
   \<and> \<not> isDueDateOver (clock_at 5000 5000) (Some ''2025-01-01T00:00:00Z'')
   \<and> \<not> isDueDateOver (clock_at 5000 5001) (Some ''2025-01-01T00:00:00Z'')"
  using isDueDateOver_iff [of "clock_at 5000 4999" "Some ''2025-01-01T00:00:00Z''"]
    isDueDateOver_iff [of "clock_at 5000 5000" "Some ''2025-01-01T00:00:00Z''" "''2025-01-01T00:00:00Z''"]
    isDueDateOver_iff [of "clock_at 5000 5001" "Some ''2025-01-01T00:00:00Z''"]
  by (simp add: clock_at_def)

text \<open>
  Claim C5, as the code has it. For a non-empty timestamp that parses, with \<open>d\<close> the due
  instant minus the current time in milliseconds: \<open>d\<close> is rounded to seconds, the seconds
  to minutes, the minutes to hours and the hours to days, each time to the nearest
  integer. The label is \<open>N <unit> overdue\<close> when the rounded seconds are negative, which
  is when the instant lies more than 500 ms in the past, and \<open>due in N <unit>\<close>
  otherwise. The unit is seconds when the rounded seconds are below 60 in magnitude,
  else minutes when the rounded minutes are below 60, else hours when the rounded hours
  are below 24, else days, and \<open>N\<close> is the magnitude of the rounded value in that unit.
\<close>

theorem getRelativeTime_buckets:
  assumes nonempty: "s \<noteq> []" and parsed: "Date_parse P s = Some due"
    and ds: "ds = (due - Date_now P + 500) div 1000"
    and dm: "dm = (ds + 30) div 60"
    and dh: "dh = (dm + 30) div 60"
    and dd: "dd = (dh + 12) div 24"
  shows "(ds < 0 \<longleftrightarrow> due - Date_now P < - 500)
    \<and> \<bar>1000 * ds - (due - Date_now P)\<bar> \<le> 500
    \<and> \<bar>60 * dm - ds\<bar> \<le> 30 \<and> \<bar>60 * dh - dm\<bar> \<le> 30 \<and> \<bar>24 * dd - dh\<bar> \<le> 12
    \<and> (ds < 0 \<longrightarrow> getRelativeTime P (Some s) =
          (if \<bar>ds\<bar> < 60 then show_int \<bar>ds\<bar> @ '' seconds overdue''
           else if \<bar>dm\<bar> < 60 then show_int \<bar>dm\<bar> @ '' minutes overdue''
           else if \<bar>dh\<bar> < 24 then show_int \<bar>dh\<bar> @ '' hours overdue''
           else show_int \<bar>dd\<bar> @ '' days overdue''))
    \<and> (0 \<le> ds \<longrightarrow> getRelativeTime P (Some s) =
          (if ds < 60 then ''due in '' @ show_int ds @ '' seconds''
           else if dm < 60 then ''due in '' @ show_int dm @ '' minutes''
           else if dh < 24 then ''due in '' @ show_int dh @ '' hours''
           else ''due in '' @ show_int dd @ '' days''))
    \<and> (due - Date_now P < - 500 \<longrightarrow> suffix '' overdue'' (getRelativeTime P (Some s)))
    \<and> (- 500 \<le> due - Date_now P \<longrightarrow> prefix ''due in '' (getRelativeTime P (Some s)))"
proof -
  have sign: "ds < 0 \<longleftrightarrow> due - Date_now P < - 500"
    unfolding ds by (rule rounded_negative)
  have near: "\<bar>1000 * ds - (due - Date_now P)\<bar> \<le> 500" "\<bar>60 * dm - ds\<bar> \<le> 30"
    "\<bar>60 * dh - dm\<bar> \<le> 30" "\<bar>24 * dd - dh\<bar> \<le> 12"
    unfolding ds dm dh dd by (rule nearest_1000 nearest_60 nearest_24)+
  have unfolded: "getRelativeTime P (Some s) =
     (if ds < 0 then
          (if \<bar>ds\<bar> < 60 then show_int \<bar>ds\<bar> @ '' seconds overdue''
           else if \<bar>dm\<bar> < 60 then show_int \<bar>dm\<bar> @ '' minutes overdue''
           else if \<bar>dh\<bar> < 24 then show_int \<bar>dh\<bar> @ '' hours overdue''
           else show_int \<bar>dd\<bar> @ '' days overdue'')
        else
          (if ds < 60 then ''due in '' @ show_int ds @ '' seconds''
           else if dm < 60 then ''due in '' @ show_int dm @ '' minutes''
           else if dh < 24 then ''due in '' @ show_int dh @ '' hours''
           else ''due in '' @ show_int dd @ '' days''))"
    unfolding getRelativeTime_rounded [OF nonempty parsed] dd dh dm ds
    by (simp only: Let_def)
  have past: "getRelativeTime P (Some s) =
          (if \<bar>ds\<bar> < 60 then show_int \<bar>ds\<bar> @ '' seconds overdue''
           else if \<bar>dm\<bar> < 60 then show_int \<bar>dm\<bar> @ '' minutes overdue''
           else if \<bar>dh\<bar> < 24 then show_int \<bar>dh\<bar> @ '' hours overdue''
           else show_int \<bar>dd\<bar> @ '' days overdue'')" if "ds < 0"
    unfolding unfolded using that by (simp only: if_True)
  have future: "getRelativeTime P (Some s) =
          (if ds < 60 then ''due in '' @ show_int ds @ '' seconds''
           else if dm < 60 then ''due in '' @ show_int dm @ '' minutes''
           else if dh < 24 then ''due in '' @ show_int dh @ '' hours''
           else ''due in '' @ show_int dd @ '' days'')" if "0 \<le> ds"
  proof -
    from that have "\<not> ds < 0" by simp
    then show ?thesis unfolding unfolded by (simp only: if_False)
  qed
  have sfx: "suffix '' overdue'' (getRelativeTime P (Some s))" if "ds < 0"
    unfolding past [OF that] by (simp add: suffix_def)
  have pfx: "prefix ''due in '' (getRelativeTime P (Some s))" if "0 \<le> ds"
    unfolding future [OF that] by (simp add: prefix_def)
  have nonneg: "0 \<le> ds" if "- 500 \<le> due - Date_now P"
    using that sign by linarith
  show ?thesis
    using sign near past future sfx pfx nonneg by blast
qed

text \<open>
  Two days ahead reads \<open>due in 2 days\<close>; ninety minutes behind reads \<open>1 hours overdue\<close>,
  the tie at -1.5 hours going up to -1.
\<close>

theorem getRelativeTime_buckets_witness:
  "getRelativeTime (clock_at 0 172800000) (Some ''2099-01-01T00:00:00Z'') = ''due in 2 days''
   \<and> getRelativeTime (clock_at 5400000 0) (Some ''1970-01-01T00:00:00Z'') = ''1 hours overdue''"
proof -
  have ne: "''2099-01-01T00:00:00Z'' \<noteq> []" "''1970-01-01T00:00:00Z'' \<noteq> []"
    by simp_all
  have p1: "Date_parse (clock_at 0 172800000) ''2099-01-01T00:00:00Z'' = Some 172800000"
    by (simp add: clock_at_def)
  have s1: "(172800::int) = (172800000 - Date_now (clock_at 0 172800000) + 500) div 1000"
    by (simp add: clock_at_def)
  have r1: "(2880::int) = (172800 + 30) div 60" "(48::int) = (2880 + 30) div 60"
    "(2::int) = (48 + 12) div 24"
    by simp_all
  note f = getRelativeTime_buckets [OF ne(1) p1 s1 r1]
  have a: "getRelativeTime (clock_at 0 172800000) (Some ''2099-01-01T00:00:00Z'') = ''due in 2 days''"
    using f [THEN conjunct2, THEN conjunct2, THEN conjunct2, THEN conjunct2, THEN conjunct2,
      THEN conjunct2, THEN conjunct1]
    by (simp add: show_int_digit)
  have p2: "Date_parse (clock_at 5400000 0) ''1970-01-01T00:00:00Z'' = Some 0"
    by (simp add: clock_at_def)
  have s2: "(- 5400::int) = (0 - Date_now (clock_at 5400000 0) + 500) div 1000"
    by (simp add: clock_at_def)
  have r2: "(- 90::int) = (- 5400 + 30) div 60" "(- 1::int) = (- 90 + 30) div 60"
    "(0::int) = (- 1 + 12) div 24"
    by simp_all
  note g = getRelativeTime_buckets [OF ne(2) p2 s2 r2]
  have b: "getRelativeTime (clock_at 5400000 0) (Some ''1970-01-01T00:00:00Z'') = ''1 hours overdue''"
    using g [THEN conjunct2, THEN conjunct2, THEN conjunct2, THEN conjunct2, THEN conjunct2,
      THEN conjunct1]
    by (simp add: show_int_digit)
  show ?thesis using a b by simp
qed

text \<open>
  The claim as the specification words it fails for an instant less than half a second
  in the past: with the clock at 400 ms and the due instant at 0 the label is
  \<open>due in 0 seconds\<close>, which does not end in \<open>overdue\<close>.
\<close>

theorem getRelativeTime_past_counterexample:
  "Date_parse (clock_at 400 0) ''1970-01-01T00:00:00Z'' = Some 0
   \<and> 0 < Date_now (clock_at 400 0)
   \<and> getRelativeTime (clock_at 400 0) (Some ''1970-01-01T00:00:00Z'') = ''due in 0 seconds''
   \<and> \<not> suffix '' overdue'' (getRelativeTime (clock_at 400 0) (Some ''1970-01-01T00:00:00Z''))"
proof -
  have p: "Date_parse (clock_at 400 0) ''1970-01-01T00:00:00Z'' = Some 0"
    by (simp add: clock_at_def)
  have r: "getRelativeTime (clock_at 400 0) (Some ''1970-01-01T00:00:00Z'') = ''due in 0 seconds''"
  proof -
    have "''1970-01-01T00:00:00Z'' \<noteq> []" by simp
    from getRelativeTime_rounded [OF this p] show ?thesis
      by (simp add: clock_at_def show_int_digit)
  qed
  have n: "\<not> suffix '' overdue'' ''due in 0 seconds''"
    by code_simp
  have c: "0 < Date_now (clock_at 400 0)"
    by (simp add: clock_at_def)
  show ?thesis
    unfolding r using p n c by (simp only: simp_thms)
qed

section \<open>Handlers and loaders: helper lemmas\<close>

lemma handleCreateAnnouncement_try_requests:
  "requests (fst (handleCreateAnnouncement_try P st))
     = requests st @ [fst (apiFetch P ''/announcements'' ''POST'' (token st)
         (JObj [(''course_id'', js_get_opt (selectedCourse st) ''course_id''),
                (''title'', JStr (title (newAnnouncement st))),
                (''content'', if content (newAnnouncement st) \<noteq> []
                              then JStr (content (newAnnouncement st)) else JNull),
                (''is_pinned'', JBool (is_pinned (newAnnouncement st)))]))]"
  by (simp add: handleCreateAnnouncement_try_def Let_def split: prod.splits sum.splits)

lemma handleJoinCourse_try_rejected:
  assumes "snd (apiFetch P ''/enroll'' ''POST'' (token st)
                  (JObj [(''course_id'', JNum cid), (''teacher_name'', JStr tn)])) = Inl e"
  shows "handleJoinCourse_try P st cid tn =
     (st\<lparr>requests := requests st @ [fst (apiFetch P ''/enroll'' ''POST'' (token st)
                  (JObj [(''course_id'', JNum cid), (''teacher_name'', JStr tn)]))]\<rparr>, Some e)"
  using assms
  by (cases "apiFetch P ''/enroll'' ''POST'' (token st)
                  (JObj [(''course_id'', JNum cid), (''teacher_name'', JStr tn)])")
     (simp add: handleJoinCourse_try_def)

lemma handleJoinCourse_rejected:
  assumes cid: "parseInt P (course_id (joinData st)) = Some cid" "0 < cid"
    and teacher: "trim P (name (joinData st)) \<noteq> []"
    and fails: "snd (apiFetch P ''/enroll'' ''POST'' (token st)
                  (JObj [(''course_id'', JNum cid),
                         (''teacher_name'', JStr (trim P (name (joinData st))))])) = Inl e"
  shows "handleJoinCourse P st =
     handleJoinCourse_catch
       (st\<lparr>requests := requests st @ [fst (apiFetch P ''/enroll'' ''POST'' (token st)
                  (JObj [(''course_id'', JNum cid),
                         (''teacher_name'', JStr (trim P (name (joinData st))))]))]\<rparr>) e"
  using cid teacher
  by (simp add: handleJoinCourse_def Let_def handleJoinCourse_try_rejected [OF fails])

lemma fetchPerCourse_Cons:
  "snd (fetchPerCourse P tok what (c # cs)) =
     (case courseEndpoint c what of
        Inl e \<Rightarrow> Inl e
      | Inr endpoint \<Rightarrow>
          (case snd (fetchPerCourse P tok what cs) of
             Inl e \<Rightarrow> Inl e
           | Inr os \<Rightarrow> Inr (snd (apiFetch P endpoint ''GET'' tok JUndefined) # os)))"
  by (simp split: sum.splits prod.splits)

lemma fetchPerCourse_fulfilled:
  assumes "\<forall>c \<in> set cs. \<exists>v. courseFetch P tok what c = Inr v"
  shows "\<exists>ps. snd (fetchPerCourse P tok what cs) = Inr ps
           \<and> Promise_all ps = Inr (map (\<lambda>c. projr (courseFetch P tok what c)) cs)"
  using assms
proof (induction cs)
  case Nil
  then show ?case by simp
next
  case (Cons c cs)
  then obtain ps where ps: "snd (fetchPerCourse P tok what cs) = Inr ps"
    "Promise_all ps = Inr (map (\<lambda>c. projr (courseFetch P tok what c)) cs)"
    by auto
  from Cons.prems obtain v where v: "courseFetch P tok what c = Inr v"
    by auto
  then obtain endpoint where e: "courseEndpoint c what = Inr endpoint"
    "snd (apiFetch P endpoint ''GET'' tok JUndefined) = Inr v"
    by (auto simp: courseFetch_def split: sum.splits)
  show ?case
    unfolding fetchPerCourse_Cons using ps e v by simp
qed

lemma fetchPerCourse_rejected:
  assumes "\<exists>c \<in> set cs. \<exists>e. courseFetch P tok what c = Inl e"
  shows "(\<exists>e. snd (fetchPerCourse P tok what cs) = Inl e)
     \<or> (\<exists>ps e. snd (fetchPerCourse P tok what cs) = Inr ps \<and> Promise_all ps = Inl e)"
  using assms
proof (induction cs)
  case Nil
  then show ?case by simp
next
  case (Cons c cs)
  show ?case
  proof (cases "courseEndpoint c what")
    case (Inl e)
    then show ?thesis unfolding fetchPerCourse_Cons by simp
  next
    case (Inr endpoint)
    show ?thesis
    proof (cases "snd (fetchPerCourse P tok what cs)")
      case (Inl e)
      then show ?thesis unfolding fetchPerCourse_Cons using Inr by simp
    next
      case os: (Inr os)
      show ?thesis
      proof (cases "snd (apiFetch P endpoint ''GET'' tok JUndefined)")
        case (Inl e)
        then show ?thesis unfolding fetchPerCourse_Cons using Inr os by simp
      next
        case v: (Inr v)
        then have "courseFetch P tok what c = Inr v"
          using Inr by (simp add: courseFetch_def)
        with Cons.prems have "\<exists>c \<in> set cs. \<exists>e. courseFetch P tok what c = Inl e"
          by auto
        from Cons.IH [OF this] os obtain e where "Promise_all os = Inl e"
          by auto
        then show ?thesis unfolding fetchPerCourse_Cons using Inr os v by simp
      qed
    qed
  qed
qed

lemma fetchAll_fulfilled:
  assumes "\<forall>c \<in> set cs. \<exists>v. courseFetch P tok what c = Inr v"
  shows "snd (fetchAll P tok what cs) = Inr (flat (map (\<lambda>c. projr (courseFetch P tok what c)) cs))"
  using fetchPerCourse_fulfilled [OF assms]
  by (auto simp: fetchAll_def split: prod.splits)

lemma fetchAll_rejected:
  assumes "\<exists>c \<in> set cs. \<exists>e. courseFetch P tok what c = Inl e"
  shows "\<exists>e. snd (fetchAll P tok what cs) = Inl e"
  using fetchPerCourse_rejected [OF assms]
  by (auto simp: fetchAll_def split: prod.splits)

lemma fetchCourseData_unfold:
  assumes "token_present (token st)" "joinedCourses st \<noteq> []"
  shows "fetchCourseData P st =
     (let cs = joinedCourses st;
          st1 = st\<lparr>requests := requests st @ fst (fetchAll P (token st) ''assignments'' cs)\<rparr>
      in case snd (fetchAll P (token st) ''assignments'' cs) of
           Inl e \<Rightarrow> st1
         | Inr allAssignments \<Rightarrow>
             (let st3 = st1\<lparr>upcomingAssignments := filter truthy allAssignments,
                            requests := requests st1 @ fst (fetchAll P (token st) ''announcements'' cs)\<rparr>
              in case snd (fetchAll P (token st) ''announcements'' cs) of
                   Inl e \<Rightarrow> st3
                 | Inr allAnnouncements \<Rightarrow>
                     (let st5 = st3\<lparr>announcements :=
                                       filter (\<lambda>a. truthy a \<and> truthy (js_get_opt a ''course''))
                                         allAnnouncements,
                                    requests := requests st3 @ fst (fetchAll P (token st) ''materials'' cs)\<rparr>
                      in case snd (fetchAll P (token st) ''materials'' cs) of
                           Inl e \<Rightarrow> st5
                         | Inr allMaterials \<Rightarrow> st5\<lparr>materials := filter truthy allMaterials\<rparr>)))"
  using assms
  by (simp add: fetchCourseData_def Let_def split: prod.splits sum.splits)

lemma course_1_fulfils:
  "courseFetch three_course_server (Some ''abc'') ''assignments'' (JObj [(''course_id'', JNum 1)])
     = Inr (JArr [essay])"
  by code_simp

lemma course_2_rejects:
  "courseFetch three_course_server (Some ''abc'') ''assignments'' (JObj [(''course_id'', JNum 2)])
     = Inl (Error ''Request failed (Status: 500) (Status: 500)'')"
  by code_simp

lemma course_3_fulfils:
  "courseFetch three_course_server (Some ''abc'') ''assignments'' (JObj [(''course_id'', JNum 3)])
     = Inr (JArr [essay])"
  by code_simp

section \<open>Student dashboard: results\<close>

text \<open>
  Claim C1, as the code has it. With a token and at least one joined course,
  \<open>fetchCourseData\<close> replaces each unified list only when the fetch of every course for
  that kind has fulfilled, and then with the filtered concatenation of all the results.
  When the fetch of one course rejects (or its endpoint cannot be built), the list of
  that kind and the lists of the kinds after it keep their old value; when it is an
  assignment fetch, no list changes and no announcement or material request is made.
\<close>

theorem fetchCourseData_all_or_nothing:
  assumes tok: "token_present (token st)" and courses: "joinedCourses st \<noteq> []"
  shows "((\<exists>c \<in> set (joinedCourses st). \<exists>e. courseFetch P (token st) ''assignments'' c = Inl e) \<longrightarrow>
            upcomingAssignments (fetchCourseData P st) = upcomingAssignments st
          \<and> announcements (fetchCourseData P st) = announcements st
          \<and> materials (fetchCourseData P st) = materials st
          \<and> requests (fetchCourseData P st)
              = requests st @ fst (fetchAll P (token st) ''assignments'' (joinedCourses st)))
    \<and> ((\<forall>c \<in> set (joinedCourses st). \<exists>v. courseFetch P (token st) ''assignments'' c = Inr v) \<longrightarrow>
            upcomingAssignments (fetchCourseData P st)
              = filter truthy (flat (map (\<lambda>c. projr (courseFetch P (token st) ''assignments'' c))
                                      (joinedCourses st))))
    \<and> ((\<forall>c \<in> set (joinedCourses st). \<exists>v. courseFetch P (token st) ''assignments'' c = Inr v)
        \<and> (\<exists>c \<in> set (joinedCourses st). \<exists>e. courseFetch P (token st) ''announcements'' c = Inl e) \<longrightarrow>
            announcements (fetchCourseData P st) = announcements st
          \<and> materials (fetchCourseData P st) = materials st)
    \<and> ((\<forall>c \<in> set (joinedCourses st). \<exists>v. courseFetch P (token st) ''assignments'' c = Inr v)
        \<and> (\<forall>c \<in> set (joinedCourses st). \<exists>v. courseFetch P (token st) ''announcements'' c = Inr v) \<longrightarrow>
            announcements (fetchCourseData P st)
              = filter (\<lambda>a. truthy a \<and> truthy (js_get_opt a ''course''))
                  (flat (map (\<lambda>c. projr (courseFetch P (token st) ''announcements'' c))
                          (joinedCourses st))))
    \<and> ((\<forall>c \<in> set (joinedCourses st). \<exists>v. courseFetch P (token st) ''assignments'' c = Inr v)
        \<and> (\<forall>c \<in> set (joinedCourses st). \<exists>v. courseFetch P (token st) ''announcements'' c = Inr v)
        \<and> (\<exists>c \<in> set (joinedCourses st). \<exists>e. courseFetch P (token st) ''materials'' c = Inl e) \<longrightarrow>
            materials (fetchCourseData P st) = materials st)
    \<and> ((\<forall>c \<in> set (joinedCourses st). \<exists>v. courseFetch P (token st) ''assignments'' c = Inr v)
        \<and> (\<forall>c \<in> set (joinedCourses st). \<exists>v. courseFetch P (token st) ''announcements'' c = Inr v)
        \<and> (\<forall>c \<in> set (joinedCourses st). \<exists>v. courseFetch P (token st) ''materials'' c = Inr v) \<longrightarrow>
            materials (fetchCourseData P st)
              = filter truthy (flat (map (\<lambda>c. projr (courseFetch P (token st) ''materials'' c))
                                      (joinedCourses st))))"
proof -
  note unfold = fetchCourseData_unfold [OF tok courses, of P]
  have a_bad: "upcomingAssignments (fetchCourseData P st) = upcomingAssignments st
          \<and> announcements (fetchCourseData P st) = announcements st
          \<and> materials (fetchCourseData P st) = materials st
          \<and> requests (fetchCourseData P st)
              = requests st @ fst (fetchAll P (token st) ''assignments'' (joinedCourses st))"
    if "\<exists>c \<in> set (joinedCourses st). \<exists>e. courseFetch P (token st) ''assignments'' c = Inl e"
  proof -
    from fetchAll_rejected [OF that] obtain e where
      "snd (fetchAll P (token st) ''assignments'' (joinedCourses st)) = Inl e" ..
    then show ?thesis unfolding unfold by (simp add: Let_def)
  qed
  have a_good: "upcomingAssignments (fetchCourseData P st)
              = filter truthy (flat (map (\<lambda>c. projr (courseFetch P (token st) ''assignments'' c))
                                      (joinedCourses st)))"
    if "\<forall>c \<in> set (joinedCourses st). \<exists>v. courseFetch P (token st) ''assignments'' c = Inr v"
    unfolding unfold using fetchAll_fulfilled [OF that]
    by (simp add: Let_def split: sum.splits)
  have b_bad: "announcements (fetchCourseData P st) = announcements st
          \<and> materials (fetchCourseData P st) = materials st"
    if "\<forall>c \<in> set (joinedCourses st). \<exists>v. courseFetch P (token st) ''assignments'' c = Inr v"
      "\<exists>c \<in> set (joinedCourses st). \<exists>e. courseFetch P (token st) ''announcements'' c = Inl e"
  proof -
    from fetchAll_rejected [OF that(2)] obtain e where
      "snd (fetchAll P (token st) ''announcements'' (joinedCourses st)) = Inl e" ..
    then show ?thesis unfolding unfold using fetchAll_fulfilled [OF that(1)]
      by (simp add: Let_def)
  qed
  have b_good: "announcements (fetchCourseData P st)
              = filter (\<lambda>a. truthy a \<and> truthy (js_get_opt a ''course''))
                  (flat (map (\<lambda>c. projr (courseFetch P (token st) ''announcements'' c))
                          (joinedCourses st)))"
    if "\<forall>c \<in> set (joinedCourses st). \<exists>v. courseFetch P (token st) ''assignments'' c = Inr v"
      "\<forall>c \<in> set (joinedCourses st). \<exists>v. courseFetch P (token st) ''announcements'' c = Inr v"
    unfolding unfold using fetchAll_fulfilled [OF that(1)] fetchAll_fulfilled [OF that(2)]
    by (simp add: Let_def split: sum.splits)
  have c_bad: "materials (fetchCourseData P st) = materials st"
    if "\<forall>c \<in> set (joinedCourses st). \<exists>v. courseFetch P (token st) ''assignments'' c = Inr v"
      "\<forall>c \<in> set (joinedCourses st). \<exists>v. courseFetch P (token st) ''announcements'' c = Inr v"
      "\<exists>c \<in> set (joinedCourses st). \<exists>e. courseFetch P (token st) ''materials'' c = Inl e"
  proof -
    from fetchAll_rejected [OF that(3)] obtain e where
      "snd (fetchAll P (token st) ''materials'' (joinedCourses st)) = Inl e" ..
    then show ?thesis unfolding unfold
      using fetchAll_fulfilled [OF that(1)] fetchAll_fulfilled [OF that(2)]
      by (simp add: Let_def)
  qed
  have c_good: "materials (fetchCourseData P st)
              = filter truthy (flat (map (\<lambda>c. projr (courseFetch P (token st) ''materials'' c))
                                      (joinedCourses st)))"
    if "\<forall>c \<in> set (joinedCourses st). \<exists>v. courseFetch P (token st) ''assignments'' c = Inr v"
      "\<forall>c \<in> set (joinedCourses st). \<exists>v. courseFetch P (token st) ''announcements'' c = Inr v"
      "\<forall>c \<in> set (joinedCourses st). \<exists>v. courseFetch P (token st) ''materials'' c = Inr v"
    unfolding unfold
    using fetchAll_fulfilled [OF that(1)] fetchAll_fulfilled [OF that(2)]
      fetchAll_fulfilled [OF that(3)]
    by (simp add: Let_def)
  show ?thesis
    using a_bad a_good b_bad b_good c_bad c_good by blast
qed

text \<open>
  With course 2 failing nothing is listed; with courses 1 and 3 alone both essays are.
\<close>

theorem fetchCourseData_all_or_nothing_witness:
  "upcomingAssignments (fetchCourseData three_course_server three_courses) = []
   \<and> upcomingAssignments (fetchCourseData three_course_server
        (three_courses\<lparr>joinedCourses := [JObj [(''course_id'', JNum 1)], JObj [(''course_id'', JNum 3)]]\<rparr>))
       = [essay, essay]"
proof -
  let ?two = "three_courses\<lparr>joinedCourses := [JObj [(''course_id'', JNum 1)], JObj [(''course_id'', JNum 3)]]\<rparr>"
  have tok: "token_present (token three_courses)" "token_present (token ?two)"
    by (simp_all add: three_courses_def token_present_def)
  have courses: "joinedCourses three_courses \<noteq> []" "joinedCourses ?two \<noteq> []"
    by (simp_all add: three_courses_def)
  have bad: "\<exists>c \<in> set (joinedCourses three_courses).
      \<exists>e. courseFetch three_course_server (token three_courses) ''assignments'' c = Inl e"
    by (simp add: three_courses_def course_2_rejects)
  have good: "\<forall>c \<in> set (joinedCourses ?two).
      \<exists>v. courseFetch three_course_server (token ?two) ''assignments'' c = Inr v"
    by (simp add: three_courses_def course_1_fulfils course_3_fulfils)
  have a: "upcomingAssignments (fetchCourseData three_course_server three_courses) = []"
  proof -
    from fetchCourseData_all_or_nothing [OF tok(1) courses(1), of three_course_server, THEN conjunct1]
      bad
    have "upcomingAssignments (fetchCourseData three_course_server three_courses)
        = upcomingAssignments three_courses"
      by blast
    then show ?thesis by (simp add: three_courses_def)
  qed
  have rhs: "filter truthy (flat (map (\<lambda>c. projr (courseFetch three_course_server (token ?two)
        ''assignments'' c)) (joinedCourses ?two))) = [essay, essay]"
    by (simp add: three_courses_def course_1_fulfils course_3_fulfils flat_def essay_def)
  have b: "upcomingAssignments (fetchCourseData three_course_server ?two) = [essay, essay]"
  proof -
    from fetchCourseData_all_or_nothing [OF tok(2) courses(2), of three_course_server,
        THEN conjunct2, THEN conjunct1] good
    have "upcomingAssignments (fetchCourseData three_course_server ?two)
        = filter truthy (flat (map (\<lambda>c. projr (courseFetch three_course_server (token ?two)
            ''assignments'' c)) (joinedCourses ?two)))"
      by blast
    then show ?thesis by (simp only: rhs)
  qed
  show ?thesis using a b by simp
qed

text \<open>
  The claim as the specification words it fails for three courses of which the second
  rejects: the fetches of courses 1 and 3 fulfil with an essay each, and the unified
  assignment list stays empty.
\<close>

theorem fetchCourseData_one_rejection_counterexample:
  "courseFetch three_course_server (Some ''abc'') ''assignments'' (JObj [(''course_id'', JNum 1)])
     = Inr (JArr [essay])
   \<and> courseFetch three_course_server (Some ''abc'') ''assignments'' (JObj [(''course_id'', JNum 2)])
       = Inl (Error ''Request failed (Status: 500) (Status: 500)'')
   \<and> courseFetch three_course_server (Some ''abc'') ''assignments'' (JObj [(''course_id'', JNum 3)])
       = Inr (JArr [essay])
   \<and> upcomingAssignments (fetchCourseData three_course_server three_courses) = []
   \<and> length (requests (fetchCourseData three_course_server three_courses)) = 3"
  by code_simp

text \<open>
  Claim C7, as the code has it. When the form is valid and the enroll request rejects
  with an error, the handler shows one alert and changes nothing else but the request
  log. With \<open>errorMsg\<close> the error's message, or \<open>Unknown error occurred\<close> when that is
  empty: a message that includes \<open>No classroom exists\<close> gives the first friendly text,
  else one that includes \<open>Teacher does not match the course\<close> gives the second, and any
  other gives \<open>Enrollment failed: \<close> followed by \<open>errorMsg\<close>. The search is
  case-sensitive.
\<close>

theorem handleJoinCourse_failure_alert:
  assumes cid: "parseInt P (course_id (joinData st)) = Some cid" "0 < cid"
    and teacher: "trim P (name (joinData st)) \<noteq> []"
    and fails: "snd (apiFetch P ''/enroll'' ''POST'' (token st)
                  (JObj [(''course_id'', JNum cid),
                         (''teacher_name'', JStr (trim P (name (joinData st))))])) = Inl e"
    and msg: "errorMsg = (if message e = [] then ''Unknown error occurred'' else message e)"
  shows "alerts (handleJoinCourse P st) = alerts st @
      [if str_includes errorMsg ''No classroom exists''
       then ''No classroom exists with this Course ID. Please check the ID and try again.''
       else if str_includes errorMsg ''Teacher does not match the course''
       then ''The teacher name does not match the course. Please check the teacher name and try again.''
       else ''Enrollment failed: '' @ errorMsg]
    \<and> length (requests (handleJoinCourse P st)) = length (requests st) + 1
    \<and> joinedCourses (handleJoinCourse P st) = joinedCourses st
    \<and> joinData (handleJoinCourse P st) = joinData st"
  unfolding handleJoinCourse_rejected [OF cid teacher fails] msg
  by (simp add: handleJoinCourse_catch_def Let_def)

text \<open>A 404 whose body starts with \<open>No classroom exists\<close> gives the first friendly text.\<close>

theorem handleJoinCourse_failure_alert_witness:
  "alerts (handleJoinCourse (status_server 404 ''No classroom exists with ID 12'') joining)
     = [''No classroom exists with this Course ID. Please check the ID and try again.'']"
proof -
  let ?P = "status_server 404 ''No classroom exists with ID 12''"
  have cid: "parseInt ?P (course_id (joinData joining)) = Some 12" "(0::int) < 12"
    by (simp_all add: status_server_def joining_def)
  have teacher: "trim ?P (name (joinData joining)) \<noteq> []"
    by (simp add: status_server_def offline_def joining_def)
  have fails: "snd (apiFetch ?P ''/enroll'' ''POST'' (token joining)
      (JObj [(''course_id'', JNum 12),
             (''teacher_name'', JStr (trim ?P (name (joinData joining))))]))
      = Inl (Error ''No classroom exists with ID 12 (Status: 404)'')"
    by code_simp
  have inc: "str_includes ''No classroom exists with ID 12 (Status: 404)'' ''No classroom exists''"
    by code_simp
  from handleJoinCourse_failure_alert [OF cid teacher fails,
      of "''No classroom exists with ID 12 (Status: 404)''"] inc
  show ?thesis by (simp add: joining_def)
qed

text \<open>
  The claim as the specification words it fails on a message that contains
  \<open>teacher does not match\<close>: it is not replaced, and it is shown behind a prefix.
\<close>

theorem handleJoinCourse_lower_case_counterexample:
  "str_includes ''teacher does not match (Status: 400)'' ''teacher does not match''
   \<and> snd (apiFetch (status_server 400 ''teacher does not match'') ''/enroll'' ''POST'' (Some ''abc'')
          (JObj [(''course_id'', JNum 12), (''teacher_name'', JStr ''Ada'')]))
       = Inl (Error ''teacher does not match (Status: 400)'')
   \<and> alerts (handleJoinCourse (status_server 400 ''teacher does not match'') joining)
       = [''Enrollment failed: teacher does not match (Status: 400)'']"
  by code_simp

section \<open>Teacher dashboard: results\<close>

text \<open>
  Claim C8. With an empty title \<open>handleCreateAnnouncement\<close> shows the message
  \<open>Please provide a course, announcement title, and content\<close> and does nothing else: the
  request log is as before, so no request is made. With a course, a title and a content
  it makes exactly one request.
\<close>

theorem handleCreateAnnouncement_empty_title:
  "(title (newAnnouncement st) = [] \<longrightarrow>
      handleCreateAnnouncement P st
        = st\<lparr>alerts := alerts st @ [''Please provide a course, announcement title, and content'']\<rparr>
      \<and> requests (handleCreateAnnouncement P st) = requests st)
   \<and> (truthy (selectedCourse st) \<and> title (newAnnouncement st) \<noteq> []
        \<and> content (newAnnouncement st) \<noteq> [] \<longrightarrow>
      length (requests (handleCreateAnnouncement P st)) = length (requests st) + 1)"
proof -
  have sent: "length (requests (handleCreateAnnouncement P st)) = length (requests st) + 1"
    if "truthy (selectedCourse st)" "title (newAnnouncement st) \<noteq> []"
      "content (newAnnouncement st) \<noteq> []"
  proof -
    obtain st' err where t: "handleCreateAnnouncement_try P st = (st', err)"
      by (cases "handleCreateAnnouncement_try P st")
    have "length (requests st') = length (requests st) + 1"
      using handleCreateAnnouncement_try_requests [of P st] t by simp
    then show ?thesis
      using that t by (simp add: handleCreateAnnouncement_def split: option.splits)
  qed
  show ?thesis
    using sent by (simp add: handleCreateAnnouncement_def)
qed

text \<open>A teacher without a title, before a server that would answer.\<close>

theorem handleCreateAnnouncement_empty_title_witness:
  "requests (handleCreateAnnouncement (ok_server ''{}'') untitled) = []
   \<and> alerts (handleCreateAnnouncement (ok_server ''{}'') untitled)
       = [''Please provide a course, announcement title, and content'']"
  using handleCreateAnnouncement_empty_title [of untitled "ok_server ''{}''"]
  by (simp add: untitled_def)

section \<open>The authentication context: results\<close>




end
